theory Spec2Isabelle
  imports Complex_Main
begin

section \<open>The vector class \<open>Vec3d\<close> of \<open>SeVec3d.h\<close>\<close>

text \<open>
  The class holds one member, \<open>double _vec[3]\<close>, and its member functions are
  embedded twice.

  First over the real numbers, for what the specification states "in exact
  arithmetic" (the orthogonal vector, division by a scalar as multiplication by the
  reciprocal) and for what does not depend on arithmetic at all (construction,
  assignment). There a vector is a record of three reals. The reals have no value for
  \<open>1/0\<close>, and HOL's own \<open>1 / 0 = 0\<close> is not what any program computes, so a division
  by zero is reported as a value of type \<open>fault\<close>.

  Then over IEEE 754 doubles, which is what the program computes with: products
  overflow to an infinity and underflow to zero, \<open>1/0\<close> is an infinity, and
  \<open>0 * inf\<close>, \<open>inf - inf\<close> and \<open>acos\<close> outside \<open>[-1, 1]\<close> are NaN, on which
  every comparison is false. No operation stops the program. The functions over
  doubles carry the suffix \<open>_d\<close>.
\<close>

subsection \<open>The class in exact arithmetic\<close>

record Vec3d =
  vec0 :: real
  vec1 :: real
  vec2 :: real

datatype fault = DivByZero

text \<open>\<open>1/d\<close>, as written in \<open>operator /=\<close> and \<open>operator /\<close>.\<close>

definition recip :: "real \<Rightarrow> fault + real" where
  "recip d = (if d = 0 then Inl DivByZero else Inr (1 / d))"

text \<open>
  \<open>void setValue(double x, double y, double z)\<close> overwrites the three slots of the
  receiver, one after the other.
\<close>

definition setValue :: "Vec3d \<Rightarrow> real \<Rightarrow> real \<Rightarrow> real \<Rightarrow> Vec3d" where
  "setValue this a b c = this\<lparr>vec0 := a, vec1 := b, vec2 := c\<rparr>"

text \<open>
  \<open>Vec3d() {}\<close>: the body is empty and the class has no member initialiser, so the
  three slots keep what the storage of the new object held. That content is the
  argument \<open>raw\<close>.
\<close>

definition Vec3d_default :: "Vec3d \<Rightarrow> Vec3d" where
  "Vec3d_default raw = raw"

text \<open>
  \<open>Vec3d(double x, double y, double z) { setValue(x, y, z); }\<close>. All three slots are
  written, so the storage's earlier content plays no part and the constructor is
  given as a function of its arguments alone (\<open>setValue_any_storage\<close> below).
\<close>

definition Vec3d_xyz :: "real \<Rightarrow> real \<Rightarrow> real \<Rightarrow> Vec3d" where
  "Vec3d_xyz a b c = setValue \<lparr>vec0 = 0, vec1 = 0, vec2 = 0\<rparr> a b c"

text \<open>\<open>Vec3d(double v) { setValue(v, v, v); }\<close>\<close>

definition Vec3d_scalar :: "real \<Rightarrow> Vec3d" where
  "Vec3d_scalar v = setValue \<lparr>vec0 = 0, vec1 = 0, vec2 = 0\<rparr> v v v"

text \<open>
  \<open>Vec3d(const double* v)\<close> and \<open>Vec3d(const float* v)\<close> read \<open>v[0]\<close>, \<open>v[1]\<close>
  and \<open>v[2]\<close> with no check of the buffer's length; a shorter buffer is a read
  out of bounds, \<open>None\<close> here.
\<close>

definition Vec3d_array :: "real list \<Rightarrow> Vec3d option" where
  "Vec3d_array v =
     (if 3 \<le> length v then Some (Vec3d_xyz (v ! 0) (v ! 1) (v ! 2)) else None)"

text \<open>\<open>double operator [](int i) const\<close>; an index outside 0..2 is out of bounds.\<close>

definition index :: "Vec3d \<Rightarrow> int \<Rightarrow> real option" where
  "index v i =
     (if i = 0 then Some (vec0 v) else if i = 1 then Some (vec1 v)
      else if i = 2 then Some (vec2 v) else None)"

text \<open>\<open>operator ==\<close> and \<open>operator !=\<close>.\<close>

definition Vec3d_eq :: "Vec3d \<Rightarrow> Vec3d \<Rightarrow> bool" where
  "Vec3d_eq this v = (vec0 this = vec0 v \<and> vec1 this = vec1 v \<and> vec2 this = vec2 v)"

definition Vec3d_neq :: "Vec3d \<Rightarrow> Vec3d \<Rightarrow> bool" where
  "Vec3d_neq this v = (\<not> Vec3d_eq this v)"

text \<open>\<open>Vec3d operator *(double d) const\<close>\<close>

definition Vec3d_mul_scalar :: "Vec3d \<Rightarrow> real \<Rightarrow> Vec3d" where
  "Vec3d_mul_scalar this d = Vec3d_xyz (vec0 this * d) (vec1 this * d) (vec2 this * d)"

text \<open>\<open>Vec3d operator /(double d) const { return *this * (1/d); }\<close>\<close>

definition Vec3d_div_scalar :: "Vec3d \<Rightarrow> real \<Rightarrow> fault + Vec3d" where
  "Vec3d_div_scalar this d =
     (case recip d of Inl e \<Rightarrow> Inl e | Inr r \<Rightarrow> Inr (Vec3d_mul_scalar this r))"

text \<open>\<open>double dot(const Vec3d &v) const\<close>\<close>

definition dot :: "Vec3d \<Rightarrow> Vec3d \<Rightarrow> real" where
  "dot this v = vec0 this * vec0 v + vec1 this * vec1 v + vec2 this * vec2 v"

text \<open>\<open>Vec3d orthogonal() const\<close>\<close>

definition orthogonal :: "Vec3d \<Rightarrow> Vec3d" where
  "orthogonal this =
     Vec3d_xyz (vec1 this + vec2 this) (vec2 this - vec0 this) (- vec0 this - vec1 this)"

text \<open>
  The member functions that write to the receiver change the object they are called
  on, and \<open>operator =\<close>, \<open>*=\<close>, \<open>/=\<close>, \<open>+=\<close> and \<open>-=\<close> return \<open>*this\<close> as a
  \<open>Vec3d &\<close>. Which object is changed, and whether the argument is that same object,
  matters here, so they run on a store of vector objects: a reference is the address
  of an object, and a \<open>Vec3d &\<close> result is an address. Each assignment to a slot is
  one update of the store, in the order of the source, and each read sees the
  updates before it.
\<close>

type_synonym ref = nat
type_synonym store = "ref \<Rightarrow> Vec3d"

definition put0 :: "store \<Rightarrow> ref \<Rightarrow> real \<Rightarrow> store" where
  "put0 s p a = s(p := (s p)\<lparr>vec0 := a\<rparr>)"

definition put1 :: "store \<Rightarrow> ref \<Rightarrow> real \<Rightarrow> store" where
  "put1 s p a = s(p := (s p)\<lparr>vec1 := a\<rparr>)"

definition put2 :: "store \<Rightarrow> ref \<Rightarrow> real \<Rightarrow> store" where
  "put2 s p a = s(p := (s p)\<lparr>vec2 := a\<rparr>)"

text \<open>
  \<open>Vec3d &operator =(const Vec3d &v)
  { _vec[0]=v[0]; _vec[1]=v[1]; _vec[2]=v[2]; return *this; }\<close>
\<close>

definition Vec3d_assign :: "store \<Rightarrow> ref \<Rightarrow> ref \<Rightarrow> ref \<times> store" where
  "Vec3d_assign s this v =
     (let s1 = put0 s this (vec0 (s v));
          s2 = put1 s1 this (vec1 (s1 v));
          s3 = put2 s2 this (vec2 (s2 v))
      in (this, s3))"

text \<open>
  \<open>Vec3d &operator *=(double d)
  { _vec[0]*=d; _vec[1]*=d; _vec[2]*=d; return *this; }\<close>
\<close>

definition Vec3d_mul_assign :: "store \<Rightarrow> ref \<Rightarrow> real \<Rightarrow> ref \<times> store" where
  "Vec3d_mul_assign s this d =
     (let s1 = put0 s this (vec0 (s this) * d);
          s2 = put1 s1 this (vec1 (s1 this) * d);
          s3 = put2 s2 this (vec2 (s2 this) * d)
      in (this, s3))"

text \<open>
  \<open>Vec3d &operator /=(double d) { *this *= 1/d; return *this; }\<close>. In exact
  arithmetic \<open>1/0\<close> has no value and the function stops there with the fault; what
  the program does at \<open>d = 0\<close> is \<open>Vec3d_div_assign_d\<close> below.
\<close>

definition Vec3d_div_assign :: "store \<Rightarrow> ref \<Rightarrow> real \<Rightarrow> fault + ref \<times> store" where
  "Vec3d_div_assign s this d =
     (case recip d of
        Inl e \<Rightarrow> Inl e
      | Inr r \<Rightarrow> (case Vec3d_mul_assign s this r of (_, s') \<Rightarrow> Inr (this, s')))"

text \<open>
  Scalar division as the words "component-wise scalar division" describe it: each
  component divided by \<open>d\<close>. It is the specification that \<open>operator /\<close> and
  \<open>operator /=\<close>, which multiply by \<open>1/d\<close>, are compared with.
\<close>

definition div_componentwise_spec :: "Vec3d \<Rightarrow> real \<Rightarrow> Vec3d" where
  "div_componentwise_spec v d = \<lparr>vec0 = vec0 v / d, vec1 = vec1 v / d, vec2 = vec2 v / d\<rparr>"

subsection \<open>Doubles\<close>

text \<open>
  A value of the IEEE 754 binary64 format. \<open>Fin s m\<close> is the finite number of sign
  \<open>s\<close> (\<open>True\<close> for minus) and magnitude \<open>m\<close>, so there are two zeros,
  \<open>Fin False 0\<close> and \<open>Fin True 0\<close>; \<open>Infty s\<close> is the infinity of sign \<open>s\<close>; \<open>NaN\<close>
  stands for every NaN, whose sign and payload the class never observes. The
  magnitudes a double can hold are the \<open>k * 2^e\<close> with \<open>k < 2^53\<close> and
  \<open>-1074 \<le> e \<le> 971\<close>. The type admits any magnitude: what is proved for every
  value of the type holds for the doubles among them.
\<close>

datatype double = is_Fin: Fin bool real | is_Infty: Infty bool | is_NaN: NaN

text \<open>
  Rounding to the nearest integer, ties to the even one.
\<close>

definition rne :: "real \<Rightarrow> int" where
  "rne q =
     (let f = \<lfloor>q\<rfloor>
      in if q - of_int f < 1 / 2 then f
         else if 1 / 2 < q - of_int f then f + 1
         else if even f then f else f + 1)"

text \<open>
  Rounding of an exact magnitude \<open>x \<ge> 0\<close> to the format, to nearest with ties to
  even, which is the rounding mode a program starts in. The unit in the last place
  is \<open>2^e\<close> with \<open>e = max (\<lfloor>log2 x\<rfloor> - 52) (-1074)\<close>: 53 significant bits, and the
  fixed unit \<open>2^-1074\<close> of the subnormal numbers below \<open>2^-1022\<close>. The result is the
  multiple of \<open>2^e\<close> nearest to \<open>x\<close>, and \<open>None\<close>, the overflow, when that multiple
  is \<open>2^1024\<close> or more.
\<close>

definition round_mag :: "real \<Rightarrow> real option" where
  "round_mag x =
     (if x = 0 then Some 0
      else let e = max (\<lfloor>log 2 x\<rfloor> - 52) (- 1074);
               r = of_int (rne (x / 2 powr of_int e)) * 2 powr of_int e
           in if 2 ^ 1024 \<le> r then None else Some r)"

text \<open>
  The double of sign \<open>s\<close> nearest to the exact magnitude \<open>x\<close>: an overflow gives the
  infinity of that sign, an underflow the zero of that sign.
\<close>

definition mk :: "bool \<Rightarrow> real \<Rightarrow> double" where
  "mk s x = (case round_mag x of None \<Rightarrow> Infty s | Some m \<Rightarrow> Fin s m)"

text \<open>
  The real number a finite double stands for, and the double nearest to a real.
\<close>

fun dval :: "double \<Rightarrow> real" where
  "dval (Fin s m) = (if s then - m else m)"
| "dval (Infty s) = 0"
| "dval NaN = 0"

definition rnd :: "real \<Rightarrow> double" where
  "rnd r = mk (r < 0) \<bar>r\<bar>"

text \<open>
  Unary minus flips the sign, of zeros and infinities too.
\<close>

fun dneg :: "double \<Rightarrow> double" where
  "dneg (Fin s m) = Fin (\<not> s) m"
| "dneg (Infty s) = Infty (\<not> s)"
| "dneg NaN = NaN"

text \<open>
  Addition: the exact sum, rounded. An exact sum of zero is \<open>+0\<close>, except that
  \<open>(-0) + (-0)\<close> is \<open>-0\<close>; infinities of opposite signs add to NaN. Subtraction is
  the addition of the negated operand.
\<close>

fun dadd :: "double \<Rightarrow> double \<Rightarrow> double" where
  "dadd (Fin s m) (Fin t n) =
     (let r = dval (Fin s m) + dval (Fin t n)
      in if r = 0 then Fin (s \<and> t) 0 else rnd r)"
| "dadd (Fin s m) (Infty t) = Infty t"
| "dadd (Infty s) (Fin t n) = Infty s"
| "dadd (Infty s) (Infty t) = (if s = t then Infty s else NaN)"
| "dadd NaN b = NaN"
| "dadd a NaN = NaN"

definition dsub :: "double \<Rightarrow> double \<Rightarrow> double" where
  "dsub a b = dadd a (dneg b)"

text \<open>
  Multiplication: the sign is the exclusive or of the signs, the magnitude the
  rounded exact product; zero times an infinity is NaN.
\<close>

fun dmul :: "double \<Rightarrow> double \<Rightarrow> double" where
  "dmul (Fin s m) (Fin t n) = mk (s \<noteq> t) (m * n)"
| "dmul (Fin s m) (Infty t) = (if m = 0 then NaN else Infty (s \<noteq> t))"
| "dmul (Infty s) (Fin t n) = (if n = 0 then NaN else Infty (s \<noteq> t))"
| "dmul (Infty s) (Infty t) = Infty (s \<noteq> t)"
| "dmul NaN b = NaN"
| "dmul a NaN = NaN"

text \<open>
  Division: \<open>0/0\<close> and \<open>inf/inf\<close> are NaN, any other division by a zero is an
  infinity, and a finite number divided by an infinity is a zero.
\<close>

fun ddiv :: "double \<Rightarrow> double \<Rightarrow> double" where
  "ddiv (Fin s m) (Fin t n) =
     (if n = 0 then (if m = 0 then NaN else Infty (s \<noteq> t)) else mk (s \<noteq> t) (m / n))"
| "ddiv (Fin s m) (Infty t) = Fin (s \<noteq> t) 0"
| "ddiv (Infty s) (Fin t n) = Infty (s \<noteq> t)"
| "ddiv (Infty s) (Infty t) = NaN"
| "ddiv NaN b = NaN"
| "ddiv a NaN = NaN"

text \<open>
  \<open>sqrt\<close>, which IEEE 754 rounds correctly: a zero is returned with its sign, any
  other negative argument gives NaN.
\<close>

fun dsqrt :: "double \<Rightarrow> double" where
  "dsqrt (Fin s m) = (if m = 0 then Fin s 0 else if s then NaN else mk False (sqrt m))"
| "dsqrt (Infty s) = (if s then NaN else Infty False)"
| "dsqrt NaN = NaN"

text \<open>
  \<open>==\<close> on doubles: false as soon as one side is NaN, true on the two zeros.
\<close>

fun deq :: "double \<Rightarrow> double \<Rightarrow> bool" where
  "deq (Fin s m) (Fin t n) = (dval (Fin s m) = dval (Fin t n))"
| "deq (Infty s) (Infty t) = (s = t)"
| "deq a b = False"

text \<open>
  The literals \<open>0.0\<close> and \<open>0\<close> (an \<open>int\<close> converted to \<open>double\<close>) and the \<open>1\<close> of
  \<open>1/d\<close>.
\<close>

definition zero_d :: double where
  "zero_d = Fin False 0"

definition one_d :: double where
  "one_d = Fin False 1"

text \<open>
  A double used as a condition, as in \<open>if ( len )\<close>: it is converted to \<open>bool\<close>,
  which is \<open>len != 0\<close>. A NaN is true.
\<close>

definition truth :: "double \<Rightarrow> bool" where
  "truth d = (\<not> deq d zero_d)"



subsection \<open>The class in double arithmetic\<close>

text \<open>
  Every arithmetic operator of the source is one operation on doubles, rounded once,
  and a sum of three terms is added from the left, as C++ parses it: no extended
  precision and no fused multiply-add.

  The functions whose body divides (\<open>operator /\<close>, \<open>operator /=\<close>, \<open>normalized\<close>,
  \<open>normalize\<close>, \<open>angle\<close>) return, next to their result, the list of the divisors of
  the divisions they performed, in order: a division by zero does not stop the
  program, and the list is how a statement can say that none took place.
\<close>

record DVec3d =
  dvec0 :: double
  dvec1 :: double
  dvec2 :: double

text \<open>
  \<open>Vec3d(double x, double y, double z)\<close> and \<open>Vec3d(double v)\<close>: \<open>setValue\<close> writes
  the three slots.
\<close>

definition Vec3d_xyz_d :: "double \<Rightarrow> double \<Rightarrow> double \<Rightarrow> DVec3d" where
  "Vec3d_xyz_d a b c = \<lparr>dvec0 = a, dvec1 = b, dvec2 = c\<rparr>"

definition Vec3d_scalar_d :: "double \<Rightarrow> DVec3d" where
  "Vec3d_scalar_d v = \<lparr>dvec0 = v, dvec1 = v, dvec2 = v\<rparr>"

text \<open>
  Unary \<open>operator -\<close>, \<open>operator ==\<close>, \<open>operator *(double d)\<close>.
\<close>

definition Vec3d_neg_d :: "DVec3d \<Rightarrow> DVec3d" where
  "Vec3d_neg_d this = Vec3d_xyz_d (dneg (dvec0 this)) (dneg (dvec1 this)) (dneg (dvec2 this))"

definition Vec3d_eq_d :: "DVec3d \<Rightarrow> DVec3d \<Rightarrow> bool" where
  "Vec3d_eq_d this v =
     (deq (dvec0 this) (dvec0 v) \<and> deq (dvec1 this) (dvec1 v) \<and> deq (dvec2 this) (dvec2 v))"

definition Vec3d_mul_scalar_d :: "DVec3d \<Rightarrow> double \<Rightarrow> DVec3d" where
  "Vec3d_mul_scalar_d this d =
     Vec3d_xyz_d (dmul (dvec0 this) d) (dmul (dvec1 this) d) (dmul (dvec2 this) d)"

text \<open>
  \<open>Vec3d operator /(double d) const { return *this * (1/d); }\<close>
\<close>

definition Vec3d_div_scalar_d :: "DVec3d \<Rightarrow> double \<Rightarrow> DVec3d \<times> double list" where
  "Vec3d_div_scalar_d this d = (Vec3d_mul_scalar_d this (ddiv one_d d), [d])"

text \<open>
  \<open>operator +(const Vec3d &v)\<close> and \<open>operator -(const Vec3d &v)\<close>.
\<close>

definition Vec3d_add_d :: "DVec3d \<Rightarrow> DVec3d \<Rightarrow> DVec3d" where
  "Vec3d_add_d this v =
     Vec3d_xyz_d (dadd (dvec0 this) (dvec0 v)) (dadd (dvec1 this) (dvec1 v))
                 (dadd (dvec2 this) (dvec2 v))"

definition Vec3d_sub_d :: "DVec3d \<Rightarrow> DVec3d \<Rightarrow> DVec3d" where
  "Vec3d_sub_d this v =
     Vec3d_xyz_d (dsub (dvec0 this) (dvec0 v)) (dsub (dvec1 this) (dvec1 v))
                 (dsub (dvec2 this) (dvec2 v))"


text \<open>
  \<open>Vec3d cross(const Vec3d &v) const\<close>
\<close>

definition cross_d :: "DVec3d \<Rightarrow> DVec3d \<Rightarrow> DVec3d" where
  "cross_d this v =
     Vec3d_xyz_d (dsub (dmul (dvec1 this) (dvec2 v)) (dmul (dvec2 this) (dvec1 v)))
                 (dsub (dmul (dvec2 this) (dvec0 v)) (dmul (dvec0 this) (dvec2 v)))
                 (dsub (dmul (dvec0 this) (dvec1 v)) (dmul (dvec1 this) (dvec0 v)))"

text \<open>
  \<open>double length() const
  { return sqrt( _vec[0]*_vec[0]+_vec[1]*_vec[1]+_vec[2]*_vec[2] ); }\<close>
\<close>

definition length_d :: "DVec3d \<Rightarrow> double" where
  "length_d this =
     dsqrt (dadd (dadd (dmul (dvec0 this) (dvec0 this)) (dmul (dvec1 this) (dvec1 this)))
                 (dmul (dvec2 this) (dvec2 this)))"

text \<open>
  \<open>Vec3d normalized() const
  { double len = length(); if ( len ) return *this / len; else return 0.0; }\<close>.
  The \<open>else\<close> branch returns the \<open>double\<close> literal \<open>0.0\<close>, which the scalar
  constructor converts to a \<open>Vec3d\<close>.
\<close>

definition normalized_d :: "DVec3d \<Rightarrow> DVec3d \<times> double list" where
  "normalized_d this =
     (let len = length_d this
      in if truth len then Vec3d_div_scalar_d this len else (Vec3d_scalar_d zero_d, []))"


text \<open>
  The member functions that write, on a store of vectors of doubles.
\<close>

type_synonym dstore = "ref \<Rightarrow> DVec3d"

definition dput0 :: "dstore \<Rightarrow> ref \<Rightarrow> double \<Rightarrow> dstore" where
  "dput0 s p a = s(p := (s p)\<lparr>dvec0 := a\<rparr>)"

definition dput1 :: "dstore \<Rightarrow> ref \<Rightarrow> double \<Rightarrow> dstore" where
  "dput1 s p a = s(p := (s p)\<lparr>dvec1 := a\<rparr>)"

definition dput2 :: "dstore \<Rightarrow> ref \<Rightarrow> double \<Rightarrow> dstore" where
  "dput2 s p a = s(p := (s p)\<lparr>dvec2 := a\<rparr>)"

text \<open>
  \<open>Vec3d &operator *=(double d)
  { _vec[0]*=d; _vec[1]*=d; _vec[2]*=d; return *this; }\<close>
\<close>

definition Vec3d_mul_assign_d :: "dstore \<Rightarrow> ref \<Rightarrow> double \<Rightarrow> ref \<times> dstore" where
  "Vec3d_mul_assign_d s this d =
     (let s1 = dput0 s this (dmul (dvec0 (s this)) d);
          s2 = dput1 s1 this (dmul (dvec1 (s1 this)) d);
          s3 = dput2 s2 this (dmul (dvec2 (s2 this)) d)
      in (this, s3))"

text \<open>
  \<open>Vec3d &operator /=(double d) { *this *= 1/d; return *this; }\<close>
\<close>

definition Vec3d_div_assign_d :: "dstore \<Rightarrow> ref \<Rightarrow> double \<Rightarrow> (ref \<times> dstore) \<times> double list" where
  "Vec3d_div_assign_d s this d =
     (case Vec3d_mul_assign_d s this (ddiv one_d d) of (_, s') \<Rightarrow> ((this, s'), [d]))"

text \<open>
  \<open>Vec3d &operator +=(const Vec3d &v)
  { _vec[0]+=v[0]; _vec[1]+=v[1]; _vec[2]+=v[2]; return *this; }\<close>
\<close>

definition Vec3d_add_assign_d :: "dstore \<Rightarrow> ref \<Rightarrow> ref \<Rightarrow> ref \<times> dstore" where
  "Vec3d_add_assign_d s this v =
     (let s1 = dput0 s this (dadd (dvec0 (s this)) (dvec0 (s v)));
          s2 = dput1 s1 this (dadd (dvec1 (s1 this)) (dvec1 (s1 v)));
          s3 = dput2 s2 this (dadd (dvec2 (s2 this)) (dvec2 (s2 v)))
      in (this, s3))"

text \<open>
  \<open>Vec3d &operator -=(const Vec3d &v)
  { _vec[0]-=v[0]; _vec[1]-=v[1]; _vec[2]-=v[2]; return *this; }\<close>
\<close>

definition Vec3d_sub_assign_d :: "dstore \<Rightarrow> ref \<Rightarrow> ref \<Rightarrow> ref \<times> dstore" where
  "Vec3d_sub_assign_d s this v =
     (let s1 = dput0 s this (dsub (dvec0 (s this)) (dvec0 (s v)));
          s2 = dput1 s1 this (dsub (dvec1 (s1 this)) (dvec1 (s1 v)));
          s3 = dput2 s2 this (dsub (dvec2 (s2 this)) (dvec2 (s2 v)))
      in (this, s3))"

text \<open>
  \<open>void normalize() { double len = length(); if ( len ) *this /= len; }\<close>.
  There is no \<open>else\<close>: with \<open>len\<close> zero the store is left as it is.
\<close>

definition normalize_d :: "dstore \<Rightarrow> ref \<Rightarrow> dstore \<times> double list" where
  "normalize_d s this =
     (let len = length_d (s this)
      in if truth len
         then (case Vec3d_div_assign_d s this len of ((_, s'), divs) \<Rightarrow> (s', divs))
         else (s, []))"

text \<open>
  A \<open>const\<close> member function called on the object at \<open>this\<close>, with an argument
  passed as \<open>const Vec3d &\<close>: it reads both objects, returns its result by value and
  writes to neither. \<open>const_call0\<close> is the same for a \<open>const\<close> member function whose
  argument, if any, is passed by value.
\<close>

definition const_call :: "('v \<Rightarrow> 'v \<Rightarrow> 'a) \<Rightarrow> ('r \<Rightarrow> 'v) \<Rightarrow> 'r \<Rightarrow> 'r \<Rightarrow> 'a \<times> ('r \<Rightarrow> 'v)" where
  "const_call f s this v = (f (s this) (s v), s)"

definition const_call0 :: "('v \<Rightarrow> 'a) \<Rightarrow> ('r \<Rightarrow> 'v) \<Rightarrow> 'r \<Rightarrow> 'a \<times> ('r \<Rightarrow> 'v)" where
  "const_call0 f s this = (f (s this), s)"

text \<open>
  A finite double of magnitude at most \<open>B\<close>, and a vector of three of them.
\<close>

definition bounded_by :: "real \<Rightarrow> double \<Rightarrow> bool" where
  "bounded_by B d = (case d of Fin s m \<Rightarrow> 0 \<le> m \<and> m \<le> B | Infty s \<Rightarrow> False | NaN \<Rightarrow> False)"

definition Vec3d_bounded :: "real \<Rightarrow> DVec3d \<Rightarrow> bool" where
  "Vec3d_bounded B v = (bounded_by B (dvec0 v) \<and> bounded_by B (dvec1 v) \<and> bounded_by B (dvec2 v))"

section \<open>The pattern matcher of \<open>tests/patterns.cpp\<close>\<close>

text \<open>
  \<open>SeExprFuncNode\<close>, \<open>SeExprNode\<close>, \<open>SeExprType\<close> and \<open>SeExprVarEnv\<close> are declared
  in headers that are not among the sources. A function node is taken as the list of
  its children with the predicate \<open>isStrArg\<close> on positions; \<open>numChildren\<close> is the
  length of the list and \<open>child(i)\<close> its \<open>i\<close>-th element. The type of the children,
  of the environment and of expression types are type variables, and the two
  functions of those classes that \<open>DummyFuncX::prep\<close> calls are arguments of the
  model: \<open>cp c b env\<close> is \<open>c->prep(b, env)\<close>, which returns a type and may change the
  environment it gets by reference, and \<open>iv t\<close> is \<open>t.isValid()\<close>.
\<close>

record 'c SeExprFuncNode =
  children :: "'c list"
  isStrArg :: "nat \<Rightarrow> bool"

definition numChildren :: "'c SeExprFuncNode \<Rightarrow> nat" where
  "numChildren node = length (children node)"

definition child :: "'c SeExprFuncNode \<Rightarrow> nat \<Rightarrow> 'c" where
  "child node i = children node ! i"

text \<open>
  The loop of \<open>DummyFuncX::prep\<close>, from index \<open>i\<close> on:
  \<open>for(int i=0;i<node->numChildren();i++){
      if(!node->isStrArg(i)) valid&=node->child(i)->prep(false, env).isValid(); }\<close>
\<close>

function prep_loop ::
  "('c \<Rightarrow> bool \<Rightarrow> 'env \<Rightarrow> 't \<times> 'env) \<Rightarrow> ('t \<Rightarrow> bool) \<Rightarrow> 'c SeExprFuncNode \<Rightarrow>
     nat \<Rightarrow> bool \<Rightarrow> 'env \<Rightarrow> bool \<times> 'env" where
  "prep_loop cp iv node i valid env =
     (if i < numChildren node
      then (if \<not> isStrArg node i
            then (case cp (child node i) False env of
                    (t, env') \<Rightarrow> prep_loop cp iv node (i + 1) (valid \<and> iv t) env')
            else prep_loop cp iv node (i + 1) valid env)
      else (valid, env))"
  by pat_completeness auto
termination
  by (relation "measure (\<lambda>(cp, iv, node, i, valid, env). numChildren node - i)") auto

declare prep_loop.simps [simp del]

text \<open>
  \<open>SeExprType prep(SeExprFuncNode* node, SeExprType wanted, SeExprVarEnv & env)\<close>:
  \<open>bool valid=true;\<close>, the loop, \<open>return wanted;\<close>. The result is the returned type
  with the environment as the children's \<open>prep\<close> left it.
\<close>

definition prep ::
  "('c \<Rightarrow> bool \<Rightarrow> 'env \<Rightarrow> 't \<times> 'env) \<Rightarrow> ('t \<Rightarrow> bool) \<Rightarrow> 'c SeExprFuncNode \<Rightarrow>
     't \<Rightarrow> 'env \<Rightarrow> 't \<times> 'env" where
  "prep cp iv node wanted env =
     (case prep_loop cp iv node 0 True env of (valid, env') \<Rightarrow> (wanted, env'))"

text \<open>\<open>virtual bool isScalar() const { return true; }\<close>\<close>

definition isScalar :: bool where
  "isScalar = True"

text \<open>
  \<open>void eval(const SeExprFuncNode* node, SeVec3d& result) const {result=SeVec3d();}\<close>.
  \<open>SeVec3d\<close> is taken to be the vector class of \<open>SeVec3d.h\<close>. The temporary
  \<open>SeVec3d()\<close> is default-constructed on storage whose content is \<open>raw\<close>, then
  \<open>operator =\<close> copies it into \<open>result\<close>; the function returns what \<open>result\<close>
  holds afterwards. The store has the object \<open>result\<close> at address 0 and the
  temporary at address 1.
\<close>

definition eval :: "'c SeExprFuncNode \<Rightarrow> Vec3d \<Rightarrow> Vec3d \<Rightarrow> Vec3d" where
  "eval node result raw =
     (let s = (\<lambda>_. result)(1 := Vec3d_default raw)
      in case Vec3d_assign s 0 1 of (r, s') \<Rightarrow> s' r)"

text \<open>
  \<open>PatternExpr\<close> has the members \<open>dummyFuncX\<close> and \<open>dummyFunc\<close>, the second built
  by \<open>dummyFunc(dummyFuncX,0,16)\<close>; the record of \<open>SeExprFunc\<close> keeps the three
  constructor arguments. The expression text is the argument of the base class's
  constructor.
\<close>

datatype SeExprFuncX = DummyFuncX

record SeExprFunc =
  funcx :: SeExprFuncX
  min_args :: int
  max_args :: int

record PatternExpr =
  expr :: string
  dummyFuncX :: SeExprFuncX
  dummyFunc :: SeExprFunc

definition PatternExpr_ctor :: "string \<Rightarrow> PatternExpr" where
  "PatternExpr_ctor e =
     \<lparr>expr = e, dummyFuncX = DummyFuncX,
      dummyFunc = \<lparr>funcx = DummyFuncX, min_args = 0, max_args = 16\<rparr>\<rparr>"

text \<open>
  \<open>SeExprVarRef* resolveVar(const std::string& name) const { return 0; }\<close>: a
  pointer result is an option, and the null pointer is \<open>None\<close>.
\<close>

definition resolveVar :: "PatternExpr \<Rightarrow> string \<Rightarrow> 'varref option" where
  "resolveVar this name = None"

text \<open>\<open>SeExprFunc* resolveFunc(const std::string& name) const { return &dummyFunc; }\<close>\<close>

definition resolveFunc :: "PatternExpr \<Rightarrow> string \<Rightarrow> SeExprFunc option" where
  "resolveFunc this name = Some (dummyFunc this)"

text \<open>
  A call either returns to its caller or ends the process through \<open>exit\<close>, with the
  exit status.
\<close>

datatype 'a outcome = Exit int | Return 'a

text \<open>
  \<open>void quit(const std::string & str) { if(str == "quit" || str == "q") exit(0); }\<close>
\<close>

definition quit :: "string \<Rightarrow> unit outcome" where
  "quit str = (if str = ''quit'' \<or> str = ''q'' then Exit 0 else Return ())"

text \<open>
  One turn of the loop of \<open>main\<close>, up to \<open>expr.setExpr(str)\<close>: \<open>line\<close> is what
  \<open>getline\<close> stored in \<open>str\<close> and \<open>eof\<close> is \<open>std::cin.eof()\<close> after it. At the end
  of the input \<open>str\<close> is replaced by \<open>"q"\<close>. \<open>Return str\<close> is the string handed to
  \<open>setExpr\<close>.
\<close>

definition main_turn :: "string \<Rightarrow> bool \<Rightarrow> string outcome" where
  "main_turn line eof =
     (let str = (if eof then ''q'' else line)
      in case quit str of Exit c \<Rightarrow> Exit c | Return _ \<Rightarrow> Return str)"

section \<open>Properties of the class in exact arithmetic\<close>

lemma setValue_any_storage: "setValue raw a b c = Vec3d_xyz a b c"
  by (simp add: setValue_def Vec3d_xyz_def)

lemma Vec3d_xyz_sel [simp]:
  "vec0 (Vec3d_xyz a b c) = a" "vec1 (Vec3d_xyz a b c) = b" "vec2 (Vec3d_xyz a b c) = c"
  by (simp_all add: Vec3d_xyz_def setValue_def)

lemma Vec3d_xyz_record: "Vec3d_xyz a b c = \<lparr>vec0 = a, vec1 = b, vec2 = c\<rparr>"
  by (simp add: Vec3d_xyz_def setValue_def)

lemma Vec3d_scalar_xyz: "Vec3d_scalar v = Vec3d_xyz v v v"
  by (simp add: Vec3d_scalar_def Vec3d_xyz_def)

lemma overwrite_all: "raw\<lparr>vec0 := a, vec1 := b, vec2 := c\<rparr> = Vec3d_xyz a b c"
  using setValue_any_storage [of raw a b c] by (simp only: setValue_def)

lemma overwrite_copy: "raw\<lparr>vec0 := vec0 v, vec1 := vec1 v, vec2 := vec2 (v::Vec3d)\<rparr> = v"
  by (cases v) (simp add: overwrite_all Vec3d_xyz_record)

text \<open>
  \<open>operator =\<close>, \<open>*=\<close> and \<open>/=\<close> change the object at \<open>this\<close> and no other.
\<close>

lemma assign_store:
  "Vec3d_assign s this v = (this, s(this := s v))"
  by (simp add: Vec3d_assign_def put0_def put1_def put2_def Let_def overwrite_copy)

lemma mul_assign_store:
  "Vec3d_mul_assign s this d = (this, s(this := Vec3d_mul_scalar (s this) d))"
  by (simp add: Vec3d_mul_assign_def put0_def put1_def put2_def Vec3d_mul_scalar_def
      overwrite_all Let_def)

lemma div_assign_store:
  "d \<noteq> 0 \<Longrightarrow> Vec3d_div_assign s this d = Inr (this, s(this := Vec3d_mul_scalar (s this) (1 / d)))"
  by (simp add: Vec3d_div_assign_def recip_def mul_assign_store)

subsection \<open>Construction\<close>

text \<open>
  The statement "a default-constructed vector has all three components equal to 0.0,
  and the stand-in function's \<open>eval\<close> returns the zero vector" fails: on storage
  that holds \<open>(1, 2, 3)\<close> the default constructor leaves \<open>(1, 2, 3)\<close>, and
  \<open>eval\<close> copies that into a result that held the zero vector before.
\<close>

theorem default_constructor_counterexample:
  "vec0 (Vec3d_default \<lparr>vec0 = 1, vec1 = 2, vec2 = 3\<rparr>) \<noteq> 0 \<and>
   eval \<lparr>children = [(), ()], isStrArg = (=) 1\<rparr> \<lparr>vec0 = 0, vec1 = 0, vec2 = 0\<rparr>
        \<lparr>vec0 = 1, vec1 = 2, vec2 = 3\<rparr> \<noteq> \<lparr>vec0 = 0, vec1 = 0, vec2 = 0\<rparr>"
  by (simp add: Vec3d_default_def eval_def assign_store)

text \<open>
  C1, as the code has it. The default constructor writes nothing: the new vector's
  components are the content of its storage, whatever that is. The zero vector is
  what the scalar constructor builds from \<open>0.0\<close>. The stand-in function's \<open>eval\<close>
  leaves in its result the default-constructed temporary, whatever the node and
  whatever the result held before; that is the zero vector exactly when the
  temporary's storage held three zeros.
\<close>

theorem default_constructor_keeps_storage:
  "Vec3d_default raw = raw \<and>
   Vec3d_scalar 0 = \<lparr>vec0 = 0, vec1 = 0, vec2 = 0\<rparr> \<and>
   eval node result raw = Vec3d_default raw \<and>
   (Vec3d_eq (eval node result raw) (Vec3d_scalar 0) \<longleftrightarrow>
      vec0 raw = 0 \<and> vec1 raw = 0 \<and> vec2 raw = 0)"
  by (simp add: Vec3d_default_def eval_def assign_store Vec3d_eq_def Vec3d_scalar_xyz
      Vec3d_xyz_record)

theorem default_constructor_keeps_storage_witness:
  "eval \<lparr>children = [(), ()], isStrArg = (=) 1\<rparr> \<lparr>vec0 = 7, vec1 = 8, vec2 = 9\<rparr>
        \<lparr>vec0 = 0, vec1 = 0, vec2 = 0\<rparr> = \<lparr>vec0 = 0, vec1 = 0, vec2 = 0\<rparr> \<and>
   eval \<lparr>children = [(), ()], isStrArg = (=) 1\<rparr> \<lparr>vec0 = 7, vec1 = 8, vec2 = 9\<rparr>
        \<lparr>vec0 = 1, vec1 = 2, vec2 = 3\<rparr> = \<lparr>vec0 = 1, vec1 = 2, vec2 = 3\<rparr>"
  using default_constructor_keeps_storage
          [of "\<lparr>vec0 = 0, vec1 = 0, vec2 = 0\<rparr>" "\<lparr>children = [(), ()], isStrArg = (=) 1\<rparr>"
              "\<lparr>vec0 = 7, vec1 = 8, vec2 = 9\<rparr>"]
        default_constructor_keeps_storage
          [of "\<lparr>vec0 = 1, vec1 = 2, vec2 = 3\<rparr>" "\<lparr>children = [(), ()], isStrArg = (=) 1\<rparr>"
              "\<lparr>vec0 = 7, vec1 = 8, vec2 = 9\<rparr>"]
  by simp

subsection \<open>The orthogonal vector\<close>

text \<open>
  C6. For every vector \<open>v = (x, y, z)\<close>, \<open>v.orthogonal()\<close> is \<open>(y+z, z-x, -x-y)\<close>, and
  \<open>v.dot(v.orthogonal())\<close> is 0 in exact arithmetic: for every \<open>v\<close>, the nonzero
  ones among them.
\<close>

theorem orthogonal_is_orthogonal:
  "orthogonal \<lparr>vec0 = x, vec1 = y, vec2 = z\<rparr> = \<lparr>vec0 = y + z, vec1 = z - x, vec2 = - x - y\<rparr> \<and>
   dot v (orthogonal v) = 0"
  by (simp add: orthogonal_def dot_def Vec3d_xyz_record algebra_simps)

subsection \<open>Division by a scalar\<close>

text \<open>
  C10. For every vector \<open>v\<close> and scalar \<open>d\<close>, \<open>v / d\<close> is \<open>v * r\<close> and \<open>v /= d\<close> is
  \<open>v *= r\<close> for the \<open>r\<close> that \<open>1/d\<close> gives, and faults when \<open>1/d\<close> does. For \<open>d\<close>
  other than 0 that is \<open>v * (1/d)\<close> and \<open>v *= (1/d)\<close>, and in exact arithmetic it
  is each component of \<open>v\<close> divided by \<open>d\<close>.
\<close>

theorem division_by_reciprocal:
  "Vec3d_div_scalar v d = map_sum id (Vec3d_mul_scalar v) (recip d) \<and>
   Vec3d_div_assign s this d = map_sum id (Vec3d_mul_assign s this) (recip d) \<and>
   (d \<noteq> 0 \<longrightarrow>
      Vec3d_div_scalar v d = Inr (Vec3d_mul_scalar v (1 / d)) \<and>
      Vec3d_div_scalar v d = Inr (div_componentwise_spec v d) \<and>
      Vec3d_div_assign s this d = Inr (Vec3d_mul_assign s this (1 / d)) \<and>
      Vec3d_div_assign s this d = Inr (this, s(this := div_componentwise_spec (s this) d)))"
  by (simp add: Vec3d_div_scalar_def Vec3d_div_assign_def recip_def mul_assign_store
      Vec3d_mul_scalar_def div_componentwise_spec_def Vec3d_xyz_record)

theorem division_by_reciprocal_witness:
  "(2::real) \<noteq> 0 \<and>
   Vec3d_div_scalar \<lparr>vec0 = 4, vec1 = 6, vec2 = 8\<rparr> 2 = Inr \<lparr>vec0 = 2, vec1 = 3, vec2 = 4\<rparr> \<and>
   Vec3d_div_assign ((\<lambda>_. \<lparr>vec0 = 1, vec1 = 2, vec2 = 3\<rparr>)(7 := \<lparr>vec0 = 4, vec1 = 6, vec2 = 8\<rparr>)) 7 2 =
     Inr (7, (\<lambda>_. \<lparr>vec0 = 1, vec1 = 2, vec2 = 3\<rparr>)(7 := \<lparr>vec0 = 2, vec1 = 3, vec2 = 4\<rparr>))"
proof -
  let ?s = "(\<lambda>_. \<lparr>vec0 = 1, vec1 = 2, vec2 = 3\<rparr>)(7 := \<lparr>vec0 = 4, vec1 = 6, vec2 = 8\<rparr>) :: store"
  let ?v = "\<lparr>vec0 = 4, vec1 = 6, vec2 = 8\<rparr>"
  have h: "(2::real) \<noteq> 0" by simp
  note t = division_by_reciprocal [of ?v 2 ?s 7]
  from t h have a: "Vec3d_div_scalar ?v 2 = Inr (div_componentwise_spec ?v 2)"
    by blast
  from t h have b: "Vec3d_div_assign ?s 7 2 =
      Inr (7, ?s(7 := div_componentwise_spec (?s 7) 2))"
    by blast
  show ?thesis
    by (simp add: a b div_componentwise_spec_def)
qed

section \<open>Properties of the class in double arithmetic\<close>

subsection \<open>Rounding\<close>

lemma rne_ge_floor: "\<lfloor>q\<rfloor> \<le> rne q"
  by (simp add: rne_def Let_def)

lemma rne_le_floor1: "rne q \<le> \<lfloor>q\<rfloor> + 1"
  by (simp add: rne_def Let_def)

lemma rne_of_int [simp]: "rne (of_int k) = k"
  by (simp add: rne_def)

lemma rne_small:
  assumes "0 \<le> q" "q \<le> 1 / 2"
  shows "rne q = 0"
proof -
  from assms have fl: "\<lfloor>q\<rfloor> = 0" by (simp add: floor_eq_iff)
  show ?thesis using assms(2) by (simp add: rne_def fl Let_def)
qed


lemma two_powr_numeral: "(2::real) powr numeral n = 2 ^ numeral n"
  by (rule powr_numeral) simp

text \<open>
  A magnitude of at most \<open>2^-1075\<close>, half the smallest subnormal number, rounds to
  zero; one of \<open>2^1024\<close> or more overflows; one of at most \<open>2^1022\<close> does not; a
  power of two in the range of the format is kept. In general, a magnitude within
  half a unit of a number \<open>k / 2^n\<close> of 53 significant bits rounds to it.
\<close>

lemma round_mag_underflow:
  assumes "0 \<le> x" "x \<le> 1 / 2 ^ 1075"
  shows "round_mag x = Some 0"
proof (cases "x = 0")
  case True
  then show ?thesis by (simp add: round_mag_def)
next
  case False
  with assms have pos: "0 < x" by simp
  have "(1::real) / 2 ^ 1075 = 2 powr (- 1075)"
    by (simp only: powr_minus_divide two_powr_numeral)
  with assms(2) have "x \<le> 2 powr (- 1075)" by simp
  then have "log 2 x \<le> - 1075"
    using pos by (simp only: log_le_iff [of 2 x "- 1075"] rel_simps)
  then have "\<lfloor>log 2 x\<rfloor> \<le> - 1075"
    by (metis floor_mono floor_uminus_of_int floor_numeral floor_of_int of_int_minus of_int_numeral)
  then have "\<lfloor>log 2 x\<rfloor> - 52 \<le> - 1074" by linarith
  then have e: "max (\<lfloor>log 2 x\<rfloor> - 52) (- 1074) = - 1074"
    by (rule max_absorb2)
  have q: "x / 2 powr of_int (- 1074) = x * 2 ^ 1074"
    by (simp only: of_int_minus of_int_numeral powr_minus_divide two_powr_numeral) simp
  define y where "y = x * 2 ^ 1074"
  have "y \<le> 1 / 2 ^ 1075 * 2 ^ 1074"
    unfolding y_def using assms(2) by (intro mult_right_mono) simp_all
  also have "\<dots> = 1 / 2" by simp
  finally have le: "y \<le> 1 / 2" .
  have "0 \<le> y" unfolding y_def using pos by simp
  from this le have "rne y = 0" by (rule rne_small)
  then show ?thesis
    using False unfolding round_mag_def e Let_def q y_def [symmetric] by simp
qed

lemma round_mag_overflow:
  assumes "2 ^ 1024 \<le> x"
  shows "round_mag x = None"
proof -
  have "(0::real) < 2 ^ 1024" by simp
  with assms have pos: "0 < x" by linarith
  define L where "L = \<lfloor>log 2 x\<rfloor>"
  have Lb: "2 powr of_int L \<le> x"
    using floor_log_eq_powr_iff [of x 2 L] pos by (simp add: L_def)
  have "(2::real) powr 1024 \<le> x"
    using assms by (simp only: two_powr_numeral)
  then have "1024 \<le> log 2 x"
    using pos by (simp only: le_log_iff [of 2 x 1024] rel_simps)
  then have L1024: "1024 \<le> L"
    unfolding L_def by (simp add: le_floor_iff)
  then have e: "max (L - 52) (- 1074) = L - 52" by simp
  define q where "q = x / 2 powr of_int (L - 52)"
  have "2 powr of_int L / 2 powr of_int (L - 52) \<le> q"
    unfolding q_def using Lb by (simp add: divide_right_mono)
  moreover have "2 powr of_int L / 2 powr of_int (L - 52) = (2::real) powr 52"
    by (simp add: powr_diff [symmetric] del: powr_numeral)
  ultimately have "(2::real) powr 52 \<le> q" by simp
  then have "(2::real) ^ 52 \<le> q" by (simp only: two_powr_numeral)
  then have "(2::int) ^ 52 \<le> \<lfloor>q\<rfloor>" by (simp add: le_floor_iff)
  with rne_ge_floor [of q] have "(2::int) ^ 52 \<le> rne q" by linarith
  then have "(2::real) ^ 52 \<le> of_int (rne q)"
    by (metis of_int_le_iff of_int_numeral of_int_power)
  then have "(2::real) ^ 52 * 2 powr of_int (L - 52) \<le> of_int (rne q) * 2 powr of_int (L - 52)"
    by (intro mult_right_mono) simp_all
  moreover have "(2::real) ^ 52 * 2 powr of_int (L - 52) = 2 powr of_int L"
  proof -
    have "(2::real) powr 52 * 2 powr of_int (L - 52) = 2 powr (52 + of_int (L - 52))"
      by (rule powr_add [symmetric])
    also have "\<dots> = 2 powr of_int L" by simp
    finally show ?thesis by (simp only: two_powr_numeral)
  qed
  moreover have "(2::real) ^ 1024 \<le> 2 powr of_int L"
  proof -
    have "(1024::real) \<le> of_int L" using L1024 by linarith
    then have "(2::real) powr 1024 \<le> 2 powr of_int L"
      by (intro powr_mono) simp_all
    then show ?thesis by (simp only: two_powr_numeral)
  qed
  ultimately have "(2::real) ^ 1024 \<le> of_int (rne q) * 2 powr of_int (L - 52)" by linarith
  moreover have "x \<noteq> 0" using pos by simp
  ultimately show ?thesis
    unfolding round_mag_def L_def [symmetric] e q_def [symmetric] Let_def
    by (simp only: if_True if_False)
qed

lemma round_mag_bounded:
  assumes "0 \<le> x" "x \<le> 2 ^ 1022"
  shows "\<exists>m. round_mag x = Some m \<and> 0 \<le> m"
proof (cases "x = 0")
  case True
  then show ?thesis by (simp add: round_mag_def)
next
  case False
  with assms have pos: "0 < x" by simp
  define L where "L = \<lfloor>log 2 x\<rfloor>"
  define e where "e = max (L - 52) (- 1074)"
  define q where "q = x / 2 powr of_int e"
  have "x \<le> 2 powr 1022" using assms(2) by (simp only: two_powr_numeral)
  then have "log 2 x \<le> 1022"
    using pos by (simp only: log_le_iff [of 2 x 1022] rel_simps)
  then have "L \<le> 1022"
    unfolding L_def by (metis floor_mono floor_numeral)
  then have "e \<le> 970" by (simp add: e_def)
  then have "real_of_int e \<le> 970" by linarith
  then have "(2::real) powr of_int e \<le> 2 powr 970"
    by (intro powr_mono) simp_all
  then have pe: "(2::real) powr of_int e \<le> 2 ^ 970" by (simp only: two_powr_numeral)
  have qpos: "0 \<le> q" using pos by (simp add: q_def)
  then have "0 \<le> \<lfloor>q\<rfloor>" by simp
  with rne_ge_floor [of q] have r0: "0 \<le> rne q" by linarith
  have "of_int (rne q) \<le> q + 1"
    using rne_le_floor1 [of q] by linarith
  then have "of_int (rne q) * 2 powr of_int e \<le> (q + 1) * 2 powr of_int e"
    by (intro mult_right_mono) simp_all
  also have "\<dots> = x + 2 powr of_int e"
    by (simp add: q_def algebra_simps)
  also have "\<dots> \<le> 2 ^ 1022 + 2 ^ 970"
    using assms(2) pe by linarith
  also have "\<dots> < (2::real) ^ 1024" by simp
  finally have "\<not> (2::real) ^ 1024 \<le> of_int (rne q) * 2 powr of_int e"
    by (simp only: not_le)
  moreover have "0 \<le> real_of_int (rne q) * 2 powr of_int e" using r0 by simp
  ultimately show ?thesis
    using False
    unfolding round_mag_def L_def [symmetric] e_def [symmetric] q_def [symmetric] Let_def
    by (simp only: if_False option.inject simp_thms)
qed

lemma round_mag_pow2:
  assumes "- 1074 \<le> k" "k < 1024"
  shows "round_mag (2 powr of_int k) = Some (2 powr of_int k)"
proof -
  define e where "e = max (k - 52) (- 1074)"
  have ek: "e \<le> k" using assms by (simp add: e_def)
  have "(2::real) powr of_int k / 2 powr of_int e = 2 powr (of_int k - of_int e)"
    by (simp add: powr_diff)
  also have "\<dots> = 2 powr of_int (k - e)" by simp
  also have "\<dots> = 2 ^ nat (k - e)"
    using ek powr_real_of_int [of 2 "k - e"] by simp
  also have "\<dots> = of_int (2 ^ nat (k - e))" by simp
  finally have q: "(2::real) powr of_int k / 2 powr of_int e = of_int (2 ^ nat (k - e))" .
  have qe: "of_int (2 ^ nat (k - e)) * 2 powr of_int e = (2::real) powr of_int k"
    using q by (simp add: field_simps)
  have "real_of_int k < 1024" using assms(2) by linarith
  then have "(2::real) powr of_int k < 2 powr 1024"
    by (intro powr_less_mono) simp_all
  then have lt: "\<not> (2::real) ^ 1024 \<le> 2 powr of_int k"
    by (simp only: two_powr_numeral not_le)
  have fl: "\<lfloor>log 2 (2 powr of_int k)\<rfloor> = k" by simp
  have nz: "(2::real) powr of_int k \<noteq> 0" by simp
  show ?thesis
    unfolding round_mag_def fl e_def [symmetric] Let_def q rne_of_int qe
    using lt nz by (simp only: if_False)
qed


lemma round_mag_one: "round_mag 1 = Some 1"
  using round_mag_pow2 [of 0] by simp

lemma round_mag_two: "round_mag 2 = Some 2"
  using round_mag_pow2 [of 1] by simp

lemma round_mag_half: "round_mag (1 / 2) = Some (1 / 2)"
  using round_mag_pow2 [of "- 1"] by (simp add: powr_minus_divide)






lemma mk_not_NaN [simp]: "\<not> is_NaN (mk s x)"
  by (simp add: mk_def split: option.splits)

lemma dneg_mk: "dneg (mk s x) = mk (\<not> s) x"
  by (simp add: mk_def split: option.splits)

lemma deq_mk_refl: "deq (mk s x) (mk s x)"
  by (simp add: mk_def split: option.splits)

lemma mk_zero: "mk s 0 = Fin s 0"
  by (simp add: mk_def round_mag_def)

lemma mk_one: "mk s 1 = Fin s 1"
  by (simp add: mk_def round_mag_one)

lemma mk_overflow: "2 ^ 1024 \<le> x \<Longrightarrow> mk s x = Infty s"
  by (simp add: mk_def round_mag_overflow)

lemma mk_underflow: "0 \<le> x \<Longrightarrow> x \<le> 1 / 2 ^ 1075 \<Longrightarrow> mk s x = Fin s 0"
  by (simp add: mk_def round_mag_underflow)

subsection \<open>The operations\<close>

lemma NaN_right [simp]: "dadd a NaN = NaN" "dmul a NaN = NaN" "ddiv a NaN = NaN"
  by (cases a; simp)+

lemma neq_bool_commute: "(s \<noteq> t) = (t \<noteq> (s::bool))"
  by auto

lemma dmul_commute: "dmul a b = dmul b a"
proof (cases a; cases b)
  fix s m t n
  assume "a = Fin s m" "b = Fin t n"
  then show ?thesis
    using neq_bool_commute [of s t] by (simp add: mult.commute)
next
  fix s m t
  assume "a = Fin s m" "b = Infty t"
  then show ?thesis using neq_bool_commute [of s t] by simp
next
  fix s t n
  assume "a = Infty s" "b = Fin t n"
  then show ?thesis using neq_bool_commute [of s t] by simp
next
  fix s t
  assume "a = Infty s" "b = Infty t"
  then show ?thesis using neq_bool_commute [of s t] by simp
qed simp_all

lemma dsub_Fin:
  "dsub (Fin s m) (Fin t n) =
     (if dval (Fin s m) - dval (Fin t n) = 0 then Fin (s \<and> \<not> t) 0
      else mk (dval (Fin s m) - dval (Fin t n) < 0) \<bar>dval (Fin s m) - dval (Fin t n)\<bar>)"
proof -
  have "dval (Fin s m) + dval (Fin (\<not> t) n) = dval (Fin s m) - dval (Fin t n)"
    by simp
  then show ?thesis
    unfolding dsub_def dneg.simps dadd.simps Let_def rnd_def by (simp only:)
qed

lemma dsub_antisym: "deq (dsub a b) (dneg (dsub b a)) \<longleftrightarrow> \<not> is_NaN (dsub a b)"
proof (cases a)
  case (Fin s m)
  note a = this
  show ?thesis
  proof (cases b)
    case (Fin t n)
    define r where "r = dval (Fin s m) - dval (Fin t n)"
    have r': "dval (Fin t n) - dval (Fin s m) = - r" by (simp add: r_def)
    show ?thesis
    proof (cases "r = 0")
      case True
      then show ?thesis
        unfolding a Fin dsub_Fin r' r_def [symmetric] by simp
    next
      case False
      then have sg: "(\<not> 0 < r) = (r < 0)" by linarith
      from False show ?thesis
        unfolding a Fin dsub_Fin r' r_def [symmetric]
        by (simp add: dneg_mk sg deq_mk_refl)
    qed
  qed (simp_all add: a dsub_def)
next
  case (Infty s)
  then show ?thesis by (cases b) (auto simp add: dsub_def)
next
  case NaN
  then show ?thesis by (simp add: dsub_def)
qed

lemma dsub_mul_antisym:
  "deq (dsub (dmul p q) (dmul r t)) (dneg (dsub (dmul q' p') (dmul t' r'))) \<longleftrightarrow>
     \<not> is_NaN (dsub (dmul p q) (dmul r t))"
  if "dmul q' p' = dmul r t" "dmul t' r' = dmul p q"
  unfolding that by (rule dsub_antisym)

lemma dmul_bounded_is_Fin:
  assumes "bounded_by (2 ^ 511) a" "bounded_by (2 ^ 511) b"
  shows "is_Fin (dmul a b)"
proof -
  from assms obtain s m t n where a: "a = Fin s m" and b: "b = Fin t n"
    and m: "0 \<le> m" "m \<le> 2 ^ 511" and n: "0 \<le> n" "n \<le> 2 ^ 511"
    by (auto simp add: bounded_by_def split: double.splits)
  have "m * n \<le> 2 ^ 511 * 2 ^ 511"
    using m n by (intro mult_mono) simp_all
  also have "\<dots> = (2::real) ^ 1022" by (simp only: power_add [symmetric]) simp
  finally have "m * n \<le> 2 ^ 1022" .
  moreover have "0 \<le> m * n" using m n by simp
  ultimately obtain r where "round_mag (m * n) = Some r"
    using round_mag_bounded by blast
  then show ?thesis by (simp add: a b mk_def)
qed

lemma dsub_Fin_not_NaN: "is_Fin a \<Longrightarrow> is_Fin b \<Longrightarrow> \<not> is_NaN (dsub a b)"
  by (cases a; cases b) (simp_all add: dsub_Fin)



subsection \<open>Lengths that underflow, overflow and round\<close>


lemma length_d_of_zero:
  assumes "Vec3d_eq_d v \<lparr>dvec0 = Fin False 0, dvec1 = Fin False 0, dvec2 = Fin False 0\<rparr>"
  shows "length_d v = Fin False 0"
proof -
  have z: "\<exists>s. a = Fin s 0" if "deq a (Fin False 0)" for a
    using that by (cases a) (auto split: if_splits)
  from assms obtain s0 s1 s2 where "dvec0 v = Fin s0 0" "dvec1 v = Fin s1 0" "dvec2 v = Fin s2 0"
    unfolding Vec3d_eq_d_def using z by force
  then show ?thesis
    by (simp add: length_d_def mk_zero)
qed


lemma length_d_underflow:
  "length_d \<lparr>dvec0 = Fin False (1 / 2 ^ 600), dvec1 = Fin False 0, dvec2 = Fin False 0\<rparr> = Fin False 0"
proof -
  have "(1::real) / 2 ^ 600 * (1 / 2 ^ 600) \<le> 1 / 2 ^ 1075" by simp
  then have "dmul (Fin False (1 / 2 ^ 600)) (Fin False (1 / 2 ^ 600)) = Fin False 0"
    by (simp only: dmul.simps) (simp add: mk_underflow)
  then show ?thesis
    by (simp add: length_d_def mk_zero)
qed










subsection \<open>What the writing member functions leave in the store\<close>

text \<open>
  Each of them changes the object at \<open>this\<close> and no other, also when the argument
  is the receiver itself (\<open>v += v\<close>): slot \<open>i\<close> of the result depends on slot \<open>i\<close>
  of the operands alone, and it is read before it is written.
\<close>

lemma overwrite_all_d: "raw\<lparr>dvec0 := a, dvec1 := b, dvec2 := c\<rparr> = Vec3d_xyz_d a b c"
  by (cases raw) (simp add: Vec3d_xyz_d_def)

lemma mul_assign_store_d:
  "Vec3d_mul_assign_d s this d = (this, s(this := Vec3d_mul_scalar_d (s this) d))"
  by (simp add: Vec3d_mul_assign_d_def dput0_def dput1_def dput2_def Vec3d_mul_scalar_d_def
      overwrite_all_d Let_def)

lemma add_assign_store_d:
  "Vec3d_add_assign_d s this v = (this, s(this := Vec3d_add_d (s this) (s v)))"
  by (simp add: Vec3d_add_assign_d_def dput0_def dput1_def dput2_def Vec3d_add_d_def
      overwrite_all_d Let_def)

lemma sub_assign_store_d:
  "Vec3d_sub_assign_d s this v = (this, s(this := Vec3d_sub_d (s this) (s v)))"
  by (simp add: Vec3d_sub_assign_d_def dput0_def dput1_def dput2_def Vec3d_sub_d_def
      overwrite_all_d Let_def)

lemma div_assign_store_d:
  "Vec3d_div_assign_d s this d =
     ((this, s(this := Vec3d_mul_scalar_d (s this) (ddiv one_d d))), [d])"
  by (simp add: Vec3d_div_assign_d_def mul_assign_store_d)

subsection \<open>Normalisation\<close>

text \<open>
  The statement "for every vector of length 0, \<open>normalize()\<close> leaves it equal to the
  zero vector" fails: the square of \<open>2^-600\<close> underflows to zero, so the vector
  \<open>(2^-600, 0, 0)\<close> has the computed length 0, and \<open>normalize()\<close> leaves it as it is,
  which is not the zero vector.
\<close>

theorem normalize_zero_length_counterexample:
  "\<not> truth (length_d \<lparr>dvec0 = Fin False (1 / 2 ^ 600), dvec1 = Fin False 0, dvec2 = Fin False 0\<rparr>) \<and>
   \<not> Vec3d_eq_d
       (fst (normalize_d (\<lambda>_. \<lparr>dvec0 = Fin False (1 / 2 ^ 600), dvec1 = Fin False 0, dvec2 = Fin False 0\<rparr>) 0) 0)
       \<lparr>dvec0 = Fin False 0, dvec1 = Fin False 0, dvec2 = Fin False 0\<rparr>"
proof -
  have h: "\<not> truth (length_d \<lparr>dvec0 = Fin False (1 / 2 ^ 600), dvec1 = Fin False 0, dvec2 = Fin False 0\<rparr>)"
    by (simp only: length_d_underflow) (simp add: truth_def zero_d_def)
  then show ?thesis
    by (simp add: normalize_d_def Vec3d_eq_d_def)
qed

text \<open>
  C2, as the code has it. For every vector \<open>v\<close> whose computed length is zero, here
  the object at \<open>this\<close> in a store, \<open>v.normalized()\<close> returns the zero vector
  \<open>(0, 0, 0)\<close> and \<open>v.normalize()\<close> leaves the store, and \<open>v\<close> in it, unchanged;
  neither performs a division, by zero or otherwise. Every \<open>v\<close> that is \<open>==\<close> to the
  zero vector has the computed length zero, and is \<open>==\<close> to the zero vector after
  \<open>normalize()\<close>.
\<close>

theorem normalize_zero_length_d:
  "(\<not> truth (length_d (s this)) \<longrightarrow>
      normalized_d (s this) =
        (\<lparr>dvec0 = Fin False 0, dvec1 = Fin False 0, dvec2 = Fin False 0\<rparr>, []) \<and>
      normalize_d s this = (s, [])) \<and>
   (Vec3d_eq_d (s this) \<lparr>dvec0 = Fin False 0, dvec1 = Fin False 0, dvec2 = Fin False 0\<rparr> \<longrightarrow>
      \<not> truth (length_d (s this)) \<and>
      Vec3d_eq_d (fst (normalize_d s this) this)
        \<lparr>dvec0 = Fin False 0, dvec1 = Fin False 0, dvec2 = Fin False 0\<rparr>)"
proof -
  have a: "normalized_d (s this) =
        (\<lparr>dvec0 = Fin False 0, dvec1 = Fin False 0, dvec2 = Fin False 0\<rparr>, []) \<and>
      normalize_d s this = (s, [])"
    if "\<not> truth (length_d (s this))"
    using that by (simp add: normalized_d_def normalize_d_def Vec3d_scalar_d_def zero_d_def)
  have b: "\<not> truth (length_d (s this)) \<and>
      Vec3d_eq_d (fst (normalize_d s this) this)
        \<lparr>dvec0 = Fin False 0, dvec1 = Fin False 0, dvec2 = Fin False 0\<rparr>"
    if h: "Vec3d_eq_d (s this) \<lparr>dvec0 = Fin False 0, dvec1 = Fin False 0, dvec2 = Fin False 0\<rparr>"
  proof -
    from h have "length_d (s this) = Fin False 0" by (rule length_d_of_zero)
    then have n: "\<not> truth (length_d (s this))" by (simp add: truth_def zero_d_def)
    with a have "normalize_d s this = (s, [])" by blast
    with n h show ?thesis by simp
  qed
  from a b show ?thesis by blast
qed

theorem normalize_zero_length_d_witness:
  "\<not> truth (length_d (((\<lambda>_. \<lparr>dvec0 = Fin False (1 / 2 ^ 600), dvec1 = Fin False 0, dvec2 = Fin False 0\<rparr>) :: dstore) 0)) \<and>
   normalized_d (((\<lambda>_. \<lparr>dvec0 = Fin False (1 / 2 ^ 600), dvec1 = Fin False 0, dvec2 = Fin False 0\<rparr>) :: dstore) 0) =
     (\<lparr>dvec0 = Fin False 0, dvec1 = Fin False 0, dvec2 = Fin False 0\<rparr>, []) \<and>
   normalize_d (\<lambda>_. \<lparr>dvec0 = Fin False (1 / 2 ^ 600), dvec1 = Fin False 0, dvec2 = Fin False 0\<rparr>) 0 =
     (\<lambda>_. \<lparr>dvec0 = Fin False (1 / 2 ^ 600), dvec1 = Fin False 0, dvec2 = Fin False 0\<rparr>, []) \<and>
   Vec3d_eq_d (((\<lambda>_. \<lparr>dvec0 = Fin True 0, dvec1 = Fin False 0, dvec2 = Fin False 0\<rparr>) :: dstore) 0)
     \<lparr>dvec0 = Fin False 0, dvec1 = Fin False 0, dvec2 = Fin False 0\<rparr> \<and>
   Vec3d_eq_d
     (fst (normalize_d (\<lambda>_. \<lparr>dvec0 = Fin True 0, dvec1 = Fin False 0, dvec2 = Fin False 0\<rparr>) 0) 0)
     \<lparr>dvec0 = Fin False 0, dvec1 = Fin False 0, dvec2 = Fin False 0\<rparr>"
proof -
  let ?s = "(\<lambda>_. \<lparr>dvec0 = Fin False (1 / 2 ^ 600), dvec1 = Fin False 0, dvec2 = Fin False 0\<rparr>) :: dstore"
  let ?z = "(\<lambda>_. \<lparr>dvec0 = Fin True 0, dvec1 = Fin False 0, dvec2 = Fin False 0\<rparr>) :: dstore"
  have h: "\<not> truth (length_d (?s 0))"
    by (simp only: length_d_underflow) (simp add: truth_def zero_d_def)
  have e: "Vec3d_eq_d (?z 0) \<lparr>dvec0 = Fin False 0, dvec1 = Fin False 0, dvec2 = Fin False 0\<rparr>"
    by (simp add: Vec3d_eq_d_def)
  from normalize_zero_length_d [of ?s 0] h
  have 1: "normalized_d (?s 0) =
        (\<lparr>dvec0 = Fin False 0, dvec1 = Fin False 0, dvec2 = Fin False 0\<rparr>, []) \<and>
      normalize_d ?s 0 = (?s, [])"
    by blast
  from normalize_zero_length_d [of ?z 0] e
  have 2: "Vec3d_eq_d (fst (normalize_d ?z 0) 0)
        \<lparr>dvec0 = Fin False 0, dvec1 = Fin False 0, dvec2 = Fin False 0\<rparr>"
    by blast
  from h e 1 2 show ?thesis by simp
qed

text \<open>
  For every vector, of length zero or not, no divisor of the two functions is a
  zero: the divisor is the length, and the division runs only when it is not zero.
\<close>

lemma normalized_d_divisors: "\<forall>d \<in> set (snd (normalized_d v)). truth d"
  by (simp add: normalized_d_def Vec3d_div_scalar_d_def Let_def)

lemma normalize_d_divisors: "\<forall>d \<in> set (snd (normalize_d s this)). truth d"
  by (simp add: normalize_d_def div_assign_store_d Let_def)

subsection \<open>Angle\<close>




subsection \<open>Cross product\<close>

text \<open>
  The statement "\<open>a.cross(b) == -(b.cross(a))\<close> for every pair of vectors" fails at
  the finite vector \<open>a = b = (2^512, 2^512, 0)\<close>: both products of the third
  component overflow to the same infinity, their difference is NaN, and \<open>==\<close> is
  false on NaN.
\<close>

theorem cross_anticommutative_counterexample:
  "is_Fin (Fin False (2 ^ 512)) \<and> is_Fin (Fin False 0) \<and>
   \<not> Vec3d_eq_d
       (cross_d \<lparr>dvec0 = Fin False (2 ^ 512), dvec1 = Fin False (2 ^ 512), dvec2 = Fin False 0\<rparr>
                \<lparr>dvec0 = Fin False (2 ^ 512), dvec1 = Fin False (2 ^ 512), dvec2 = Fin False 0\<rparr>)
       (Vec3d_neg_d
          (cross_d \<lparr>dvec0 = Fin False (2 ^ 512), dvec1 = Fin False (2 ^ 512), dvec2 = Fin False 0\<rparr>
                   \<lparr>dvec0 = Fin False (2 ^ 512), dvec1 = Fin False (2 ^ 512), dvec2 = Fin False 0\<rparr>))"
proof -
  have "(2::real) ^ 512 * 2 ^ 512 = 2 ^ 1024" by (simp only: power_add [symmetric]) simp
  then have "dmul (Fin False (2 ^ 512)) (Fin False (2 ^ 512)) = Infty False"
    by (simp only: dmul.simps mk_overflow order_refl simp_thms)
  then have "dsub (dmul (Fin False (2 ^ 512)) (Fin False (2 ^ 512)))
                  (dmul (Fin False (2 ^ 512)) (Fin False (2 ^ 512))) = NaN"
    by (simp add: dsub_def)
  then show ?thesis
    by (simp add: Vec3d_eq_d_def cross_d_def Vec3d_neg_d_def Vec3d_xyz_d_def)
qed

text \<open>
  C5, as the code has it. For all vectors \<open>a\<close> and \<open>b\<close>,
  \<open>a.cross(b) == -(b.cross(a))\<close> holds, under the class's own \<open>operator ==\<close>, if
  and only if no component of \<open>a.cross(b)\<close> is NaN; it holds for all \<open>a\<close> and \<open>b\<close>
  whose components are finite and of magnitude at most \<open>2^511\<close>. \<open>cross\<close> computes
  the right-handed formula \<open>(y1*z2 - z1*y2, z1*x2 - x1*z2, x1*y2 - y1*x2)\<close>, each
  operation rounded.
\<close>

theorem cross_anticommutative_d:
  "(Vec3d_eq_d (cross_d a b) (Vec3d_neg_d (cross_d b a)) \<longleftrightarrow>
      \<not> is_NaN (dvec0 (cross_d a b)) \<and> \<not> is_NaN (dvec1 (cross_d a b)) \<and>
      \<not> is_NaN (dvec2 (cross_d a b))) \<and>
   (Vec3d_bounded (2 ^ 511) a \<and> Vec3d_bounded (2 ^ 511) b \<longrightarrow>
      Vec3d_eq_d (cross_d a b) (Vec3d_neg_d (cross_d b a))) \<and>
   cross_d \<lparr>dvec0 = x1, dvec1 = y1, dvec2 = z1\<rparr> \<lparr>dvec0 = x2, dvec1 = y2, dvec2 = z2\<rparr> =
     \<lparr>dvec0 = dsub (dmul y1 z2) (dmul z1 y2), dvec1 = dsub (dmul z1 x2) (dmul x1 z2),
      dvec2 = dsub (dmul x1 y2) (dmul y1 x2)\<rparr>"
proof -
  have c0: "deq (dvec0 (cross_d a b)) (dvec0 (Vec3d_neg_d (cross_d b a))) \<longleftrightarrow>
              \<not> is_NaN (dvec0 (cross_d a b))"
    unfolding cross_d_def Vec3d_neg_d_def Vec3d_xyz_d_def
    by (simp add: dsub_mul_antisym dmul_commute)
  have c1: "deq (dvec1 (cross_d a b)) (dvec1 (Vec3d_neg_d (cross_d b a))) \<longleftrightarrow>
              \<not> is_NaN (dvec1 (cross_d a b))"
    unfolding cross_d_def Vec3d_neg_d_def Vec3d_xyz_d_def
    by (simp add: dsub_mul_antisym dmul_commute)
  have c2: "deq (dvec2 (cross_d a b)) (dvec2 (Vec3d_neg_d (cross_d b a))) \<longleftrightarrow>
              \<not> is_NaN (dvec2 (cross_d a b))"
    unfolding cross_d_def Vec3d_neg_d_def Vec3d_xyz_d_def
    by (simp add: dsub_mul_antisym dmul_commute)
  have iff: "Vec3d_eq_d (cross_d a b) (Vec3d_neg_d (cross_d b a)) \<longleftrightarrow>
      \<not> is_NaN (dvec0 (cross_d a b)) \<and> \<not> is_NaN (dvec1 (cross_d a b)) \<and>
      \<not> is_NaN (dvec2 (cross_d a b))"
    unfolding Vec3d_eq_d_def c0 c1 c2 ..
  have bd: "\<not> is_NaN (dvec0 (cross_d a b)) \<and> \<not> is_NaN (dvec1 (cross_d a b)) \<and>
      \<not> is_NaN (dvec2 (cross_d a b))"
    if "Vec3d_bounded (2 ^ 511) a" "Vec3d_bounded (2 ^ 511) b"
    using that unfolding cross_d_def Vec3d_xyz_d_def Vec3d_bounded_def
    by (simp add: dsub_Fin_not_NaN dmul_bounded_is_Fin)
  have f: "cross_d \<lparr>dvec0 = x1, dvec1 = y1, dvec2 = z1\<rparr> \<lparr>dvec0 = x2, dvec1 = y2, dvec2 = z2\<rparr> =
     \<lparr>dvec0 = dsub (dmul y1 z2) (dmul z1 y2), dvec1 = dsub (dmul z1 x2) (dmul x1 z2),
      dvec2 = dsub (dmul x1 y2) (dmul y1 x2)\<rparr>"
    by (simp add: cross_d_def Vec3d_xyz_d_def)
  from iff bd f show ?thesis by blast
qed

theorem cross_anticommutative_d_witness:
  "Vec3d_bounded (2 ^ 511) \<lparr>dvec0 = Fin False 1, dvec1 = Fin False 0, dvec2 = Fin False 0\<rparr> \<and>
   Vec3d_bounded (2 ^ 511) \<lparr>dvec0 = Fin False 0, dvec1 = Fin False 1, dvec2 = Fin False 0\<rparr> \<and>
   cross_d \<lparr>dvec0 = Fin False 1, dvec1 = Fin False 0, dvec2 = Fin False 0\<rparr>
           \<lparr>dvec0 = Fin False 0, dvec1 = Fin False 1, dvec2 = Fin False 0\<rparr> =
     \<lparr>dvec0 = Fin False 0, dvec1 = Fin False 0, dvec2 = Fin False 1\<rparr> \<and>
   Vec3d_eq_d
     (cross_d \<lparr>dvec0 = Fin False 1, dvec1 = Fin False 0, dvec2 = Fin False 0\<rparr>
              \<lparr>dvec0 = Fin False 0, dvec1 = Fin False 1, dvec2 = Fin False 0\<rparr>)
     (Vec3d_neg_d
        (cross_d \<lparr>dvec0 = Fin False 0, dvec1 = Fin False 1, dvec2 = Fin False 0\<rparr>
                 \<lparr>dvec0 = Fin False 1, dvec1 = Fin False 0, dvec2 = Fin False 0\<rparr>))"
proof -
  let ?a = "\<lparr>dvec0 = Fin False 1, dvec1 = Fin False 0, dvec2 = Fin False 0\<rparr>"
  let ?b = "\<lparr>dvec0 = Fin False 0, dvec1 = Fin False 1, dvec2 = Fin False 0\<rparr>"
  have ba: "Vec3d_bounded (2 ^ 511) ?a" and bb: "Vec3d_bounded (2 ^ 511) ?b"
    by (simp_all add: Vec3d_bounded_def bounded_by_def)
  note t = cross_anticommutative_d [of ?a ?b "Fin False 1" "Fin False 0" "Fin False 0"
              "Fin False 0" "Fin False 1" "Fin False 0"]
  from t ba bb have e: "Vec3d_eq_d (cross_d ?a ?b) (Vec3d_neg_d (cross_d ?b ?a))" by blast
  from t have "cross_d ?a ?b =
      \<lparr>dvec0 = dsub (dmul (Fin False 0) (Fin False 0)) (dmul (Fin False 0) (Fin False 1)),
       dvec1 = dsub (dmul (Fin False 0) (Fin False 0)) (dmul (Fin False 1) (Fin False 0)),
       dvec2 = dsub (dmul (Fin False 1) (Fin False 1)) (dmul (Fin False 0) (Fin False 0))\<rparr>"
    by blast
  then have c: "cross_d ?a ?b = \<lparr>dvec0 = Fin False 0, dvec1 = Fin False 0, dvec2 = Fin False 1\<rparr>"
    by (simp add: mk_zero mk_one dsub_Fin)
  from ba bb c e show ?thesis by simp
qed

subsection \<open>Operators that write and operators that do not\<close>

text \<open>
  C7. For every store, receiver \<open>this\<close>, operand \<open>v\<close> (the receiver itself or
  another object) and scalar \<open>d\<close> (zero, infinite and NaN included): \<open>+=\<close>, \<open>-=\<close>,
  \<open>*=\<close> and \<open>/=\<close> return the address of the receiver and a store that differs from
  the old one at the receiver alone, which holds the sum, the difference, the
  product with \<open>d\<close> or the product with \<open>1/d\<close>. The binary \<open>+\<close>, \<open>-\<close>, \<open>*\<close>, \<open>/\<close>
  and the unary \<open>-\<close> return a vector built from the components of the operands, and
  the store they were given, unchanged.
\<close>

theorem compound_assignment_frame_d:
  "Vec3d_add_assign_d s this v = (this, s(this := Vec3d_add_d (s this) (s v))) \<and>
   Vec3d_sub_assign_d s this v = (this, s(this := Vec3d_sub_d (s this) (s v))) \<and>
   Vec3d_mul_assign_d s this d = (this, s(this := Vec3d_mul_scalar_d (s this) d)) \<and>
   Vec3d_div_assign_d s this d =
     ((this, s(this := Vec3d_mul_scalar_d (s this) (ddiv one_d d))), [d]) \<and>
   const_call Vec3d_add_d s this v =
     (\<lparr>dvec0 = dadd (dvec0 (s this)) (dvec0 (s v)), dvec1 = dadd (dvec1 (s this)) (dvec1 (s v)),
       dvec2 = dadd (dvec2 (s this)) (dvec2 (s v))\<rparr>, s) \<and>
   const_call Vec3d_sub_d s this v =
     (\<lparr>dvec0 = dsub (dvec0 (s this)) (dvec0 (s v)), dvec1 = dsub (dvec1 (s this)) (dvec1 (s v)),
       dvec2 = dsub (dvec2 (s this)) (dvec2 (s v))\<rparr>, s) \<and>
   const_call0 (\<lambda>a. Vec3d_mul_scalar_d a d) s this =
     (\<lparr>dvec0 = dmul (dvec0 (s this)) d, dvec1 = dmul (dvec1 (s this)) d,
       dvec2 = dmul (dvec2 (s this)) d\<rparr>, s) \<and>
   const_call0 (\<lambda>a. Vec3d_div_scalar_d a d) s this =
     ((\<lparr>dvec0 = dmul (dvec0 (s this)) (ddiv one_d d), dvec1 = dmul (dvec1 (s this)) (ddiv one_d d),
        dvec2 = dmul (dvec2 (s this)) (ddiv one_d d)\<rparr>, [d]), s) \<and>
   const_call0 Vec3d_neg_d s this =
     (\<lparr>dvec0 = dneg (dvec0 (s this)), dvec1 = dneg (dvec1 (s this)),
       dvec2 = dneg (dvec2 (s this))\<rparr>, s)"
  by (simp only: add_assign_store_d sub_assign_store_d mul_assign_store_d div_assign_store_d
      const_call_def const_call0_def Vec3d_add_d_def Vec3d_sub_d_def Vec3d_mul_scalar_d_def
      Vec3d_div_scalar_d_def Vec3d_neg_d_def Vec3d_xyz_d_def simp_thms)

theorem compound_assignment_frame_d_witness:
  "Vec3d_add_assign_d
      ((\<lambda>_. \<lparr>dvec0 = Fin False 0, dvec1 = Fin False 0, dvec2 = Fin False 0\<rparr>)
         (7 := \<lparr>dvec0 = Fin False 1, dvec1 = Fin True 1, dvec2 = Fin False 0\<rparr>)) 7 7 =
     (7, (\<lambda>_. \<lparr>dvec0 = Fin False 0, dvec1 = Fin False 0, dvec2 = Fin False 0\<rparr>)
           (7 := \<lparr>dvec0 = Fin False 2, dvec1 = Fin True 2, dvec2 = Fin False 0\<rparr>)) \<and>
   Vec3d_div_assign_d
      ((\<lambda>_. \<lparr>dvec0 = Fin False 0, dvec1 = Fin False 0, dvec2 = Fin False 0\<rparr>)
         (7 := \<lparr>dvec0 = Fin False 1, dvec1 = Fin True 1, dvec2 = Fin False 0\<rparr>)) 7 (Fin False 2) =
     ((7, (\<lambda>_. \<lparr>dvec0 = Fin False 0, dvec1 = Fin False 0, dvec2 = Fin False 0\<rparr>)
            (7 := \<lparr>dvec0 = Fin False (1 / 2), dvec1 = Fin True (1 / 2), dvec2 = Fin False 0\<rparr>)),
      [Fin False 2]) \<and>
   Vec3d_div_assign_d
      ((\<lambda>_. \<lparr>dvec0 = Fin False 0, dvec1 = Fin False 0, dvec2 = Fin False 0\<rparr>)
         (7 := \<lparr>dvec0 = Fin False 1, dvec1 = Fin True 1, dvec2 = Fin False 0\<rparr>)) 7 (Fin False 0) =
     ((7, (\<lambda>_. \<lparr>dvec0 = Fin False 0, dvec1 = Fin False 0, dvec2 = Fin False 0\<rparr>)
            (7 := \<lparr>dvec0 = Infty False, dvec1 = Infty True, dvec2 = NaN\<rparr>)),
      [Fin False 0])"
proof -
  let ?s = "(\<lambda>_. \<lparr>dvec0 = Fin False 0, dvec1 = Fin False 0, dvec2 = Fin False 0\<rparr>)
              (7 := \<lparr>dvec0 = Fin False 1, dvec1 = Fin True 1, dvec2 = Fin False 0\<rparr>) :: dstore"
  note t2 = compound_assignment_frame_d [of ?s 7 7 "Fin False 2"]
  note t0 = compound_assignment_frame_d [of ?s 7 7 "Fin False 0"]
  from t2 have a: "Vec3d_add_assign_d ?s 7 7 = (7, ?s(7 := Vec3d_add_d (?s 7) (?s 7)))"
    by blast
  from t2 have b: "Vec3d_div_assign_d ?s 7 (Fin False 2) =
      ((7, ?s(7 := Vec3d_mul_scalar_d (?s 7) (ddiv one_d (Fin False 2)))), [Fin False 2])"
    by blast
  from t0 have c: "Vec3d_div_assign_d ?s 7 (Fin False 0) =
      ((7, ?s(7 := Vec3d_mul_scalar_d (?s 7) (ddiv one_d (Fin False 0)))), [Fin False 0])"
    by blast
  have add: "Vec3d_add_d (?s 7) (?s 7) = \<lparr>dvec0 = Fin False 2, dvec1 = Fin True 2, dvec2 = Fin False 0\<rparr>"
    by (simp add: Vec3d_add_d_def Vec3d_xyz_d_def rnd_def mk_def round_mag_two)
  have d2: "Vec3d_mul_scalar_d (?s 7) (ddiv one_d (Fin False 2)) =
      \<lparr>dvec0 = Fin False (1 / 2), dvec1 = Fin True (1 / 2), dvec2 = Fin False 0\<rparr>"
    by (simp add: Vec3d_mul_scalar_d_def Vec3d_xyz_d_def one_d_def mk_def round_mag_half
        round_mag_def [of 0])
  have d0: "Vec3d_mul_scalar_d (?s 7) (ddiv one_d (Fin False 0)) =
      \<lparr>dvec0 = Infty False, dvec1 = Infty True, dvec2 = NaN\<rparr>"
    by (simp add: Vec3d_mul_scalar_d_def Vec3d_xyz_d_def one_d_def)
  show ?thesis
    unfolding a b c add d2 d0 by simp
qed

section \<open>Properties of the pattern matcher\<close>

text \<open>
  C4. For every name, \<open>resolveVar\<close> returns the null pointer, the outcome
  "unresolved" and no variable reference at all, and \<open>resolveFunc\<close> returns a pointer
  to the member \<open>dummyFunc\<close>: the same function for any two names, which is the
  one built from \<open>dummyFuncX\<close>, 0 and 16 by the constructor.
\<close>

theorem resolve_policy:
  "(resolveVar this name :: 'varref option) = None \<and>
   resolveFunc this name = Some (dummyFunc this) \<and>
   resolveFunc this name = resolveFunc this name' \<and>
   resolveFunc (PatternExpr_ctor e) name =
     Some \<lparr>funcx = DummyFuncX, min_args = 0, max_args = 16\<rparr>"
  by (simp add: resolveVar_def resolveFunc_def PatternExpr_ctor_def)

text \<open>
  C8. \<open>quit\<close> ends the process, with status 0, if and only if its argument is
  exactly \<open>"quit"\<close> or exactly \<open>"q"\<close>, and returns otherwise; a line read before the
  end of the input that is neither of the two is the string handed to \<open>setExpr\<close>.
\<close>

theorem quit_iff:
  "(quit str = Exit 0 \<longleftrightarrow> str = ''quit'' \<or> str = ''q'') \<and>
   (quit str = Return () \<longleftrightarrow> \<not> (str = ''quit'' \<or> str = ''q'')) \<and>
   main_turn str False = (if str = ''quit'' \<or> str = ''q'' then Exit 0 else Return str)"
  by (simp add: quit_def main_turn_def)

theorem quit_iff_witness:
  "quit ''quit'' = Exit 0 \<and> quit ''q'' = Exit 0 \<and> quit ''Quit'' = Return () \<and>
   quit ''q '' = Return () \<and> main_turn ''quit + 1'' False = Return ''quit + 1''"
  using quit_iff [of "''quit''"] quit_iff [of "''q''"] quit_iff [of "''Quit''"]
        quit_iff [of "''q ''"] quit_iff [of "''quit + 1''"]
  by simp

text \<open>
  At the end of the input \<open>main\<close> replaces the line by \<open>"q"\<close>, so the process
  ends whatever \<open>getline\<close> had stored.
\<close>

lemma main_turn_eof: "main_turn line True = Exit 0"
  by (simp add: main_turn_def quit_def)

text \<open>
  The flag of the loop of \<open>prep\<close>: once false it stays false, and a child that
  is not a string argument and whose \<open>prep\<close> returns an invalid type in every
  environment makes it false.
\<close>

lemma prep_loop_stays_False: "fst (prep_loop cp iv node i False env) = False"
proof (induction "numChildren node - i" arbitrary: i env)
  case 0
  then show ?case by (subst prep_loop.simps) simp
next
  case (Suc n)
  then have lt: "i < numChildren node" and m: "n = numChildren node - (i + 1)" by simp_all
  show ?case
    using lt Suc.hyps(1) [OF m]
    by (subst prep_loop.simps) (simp split: prod.splits)
qed

lemma prep_loop_failing_child:
  assumes "k < numChildren node" "\<not> isStrArg node k"
    and "\<And>e. \<not> iv (fst (cp (child node k) False e))"
  shows "i \<le> k \<Longrightarrow> fst (prep_loop cp iv node i valid env) = False"
proof (induction "k - i" arbitrary: i valid env)
  case 0
  then have ik: "i = k" by simp
  show ?case
  proof (cases "cp (child node k) False env")
    case (Pair t env')
    with assms(3) [of env] have "\<not> iv t" by simp
    with assms(1,2) Pair ik show ?thesis
      by (subst prep_loop.simps) (simp add: prep_loop_stays_False)
  qed
next
  case (Suc n)
  then have lt: "i < k" and m: "n = k - (i + 1)" and le: "i + 1 \<le> k" by simp_all
  from lt assms(1) have "i < numChildren node" by simp
  then show ?case
    using Suc.hyps(1) [OF m le]
    by (subst prep_loop.simps) (simp split: prod.splits)
qed

text \<open>
  C9. For every function node, wanted type and environment, and whatever the
  children's \<open>prep\<close> and \<open>isValid\<close> compute, the stand-in function's \<open>prep\<close>
  returns the wanted type. When a child that is not a string argument fails
  preparation the loop's flag ends false, and the returned type is the wanted type
  all the same: the flag is not read.
\<close>

theorem prep_returns_wanted:
  "fst (prep cp iv node wanted env) = wanted \<and>
   (k < numChildren node \<and> \<not> isStrArg node k \<and> (\<forall>e. \<not> iv (fst (cp (child node k) False e)))
      \<longrightarrow> fst (prep_loop cp iv node 0 True env) = False \<and>
          fst (prep cp iv node wanted env) = wanted)"
proof -
  have w: "fst (prep cp iv node wanted env) = wanted"
    by (simp add: prep_def split: prod.splits)
  have "fst (prep_loop cp iv node 0 True env) = False"
    if "k < numChildren node" "\<not> isStrArg node k" "\<forall>e. \<not> iv (fst (cp (child node k) False e))"
    using prep_loop_failing_child [of k node iv cp 0 True env] that by simp
  with w show ?thesis by blast
qed

theorem prep_returns_wanted_witness:
  "(0::nat) < numChildren \<lparr>children = [False, True], isStrArg = (=) 1\<rparr> \<and>
   \<not> isStrArg \<lparr>children = [False, True], isStrArg = (=) 1\<rparr> 0 \<and>
   fst (prep_loop (\<lambda>c b e. (c, e)) id \<lparr>children = [False, True], isStrArg = (=) 1\<rparr> 0 True ()) = False \<and>
   fst (prep (\<lambda>c b e. (c, e)) id \<lparr>children = [False, True], isStrArg = (=) 1\<rparr> True ()) = True"
  using prep_returns_wanted
          [of "\<lambda>c b e. (c, e)" id "\<lparr>children = [False, True], isStrArg = (=) 1\<rparr>" True "()" 0]
  by (simp add: numChildren_def child_def)

end
